theory Spec2Isabelle
  imports Complex_Main
begin

section \<open>Fraud detection API: data model\<close>

text \<open>
  The service of \<^verbatim>\<open>main.py\<close> scores a payment transaction, stores it and raises an
  alert when the score is high. The schemas of \<^verbatim>\<open>schemas.py\<close> are records here.

  Numbers: Python's \<^verbatim>\<open>float\<close> is modelled by \<^typ>\<open>real\<close>. The scorer only compares the
  amount with the constants 200, 1000 and 5000 and adds the integers 50, 25, 15, 10 and 5
  to 0.0; comparisons are exact and every sum is an integer below \<open>2 ^ 53\<close>, so no
  rounding takes place. NaN is rejected by the constraint \<^verbatim>\<open>ge=0\<close> of the schema, and an
  infinite amount behaves as any amount above 5000.

  Strings: \<^typ>\<open>string\<close> holds the bytes of the text. \<^verbatim>\<open>str.upper\<close> and \<^verbatim>\<open>str.lower\<close>
  are modelled on the ASCII letters and leave every other byte alone. Python also maps
  letters beyond ASCII, but the scorer only tests the result for membership in sets of
  ASCII words: the code points whose upper case is made of ASCII letters alone are the
  ASCII letters, dotless i, long s, sharp s and the f-ligatures (giving I, S, F, L, T),
  none of which occurs in RU, NG, UA, BR, CN, and the only code point beyond ASCII whose
  lower case is an ASCII letter is the Kelvin sign (giving k), which occurs in none of
  the channel and category words. So the membership tests agree with Python's.
\<close>

definition upper_char :: "char \<Rightarrow> char" where
  "upper_char c =
     (let n = (of_char c :: nat) in if 97 \<le> n \<and> n \<le> 122 then char_of (n - 32) else c)"

definition lower_char :: "char \<Rightarrow> char" where
  "lower_char c =
     (let n = (of_char c :: nat) in if 65 \<le> n \<and> n \<le> 90 then char_of (n + 32) else c)"

definition upper :: "string \<Rightarrow> string" where
  "upper s = map upper_char s"

definition lower :: "string \<Rightarrow> string" where
  "lower s = map lower_char s"

text \<open>Truthiness of an \<^verbatim>\<open>Optional[str]\<close>: \<^verbatim>\<open>None\<close> and the empty string are falsy.\<close>

fun truthy :: "string option \<Rightarrow> bool" where
  "truthy None = False"
| "truthy (Some s) = (s \<noteq> [])"

text \<open>A \<^verbatim>\<open>datetime\<close>, as a number of seconds; every \<^verbatim>\<open>datetime\<close> object is truthy.\<close>

datatype datetime = Datetime int

text \<open>The storage identity handed back by the document store, opaque to the service.\<close>

type_synonym ident = nat

record Transaction =
  transaction_id :: "string option"
  user_id :: string
  amount :: real
  currency :: string
  merchant :: "string option"
  merchant_category :: "string option"
  country :: "string option"
  channel :: "string option"
  timestamp :: "datetime option"
  device_id :: "string option"
  ip_address :: "string option"
  risk_score :: "real option"
  risk_level :: "string option"
  is_fraud :: "bool option"

record Alert =
  transaction_ref :: ident
  alert_user_id :: string
  reason :: string
  alert_risk_score :: real
  alert_risk_level :: string
  tags :: "string list"

record CreateTransactionResponse =
  response_id :: ident
  response_risk_score :: real
  response_risk_level :: string

section \<open>Risk scorer and level classifier\<close>

text \<open>
  \<open>accumulated_score\<close> is the value of the local variable \<^verbatim>\<open>score\<close> of
  \<^verbatim>\<open>compute_risk_score\<close> when the \<^verbatim>\<open>return\<close> is reached: each \<^verbatim>\<open>if\<close> either adds
  its points or leaves the variable alone. \<^verbatim>\<open>a and b\<close> evaluates \<^verbatim>\<open>b\<close> only when
  \<^verbatim>\<open>a\<close> is truthy.
\<close>

definition risky_countries :: "string set" where
  "risky_countries = {''RU'', ''NG'', ''UA'', ''BR'', ''CN''}"

definition high_risk_mcc :: "string set" where
  "high_risk_mcc = {''gambling'', ''crypto'', ''adult''}"

definition accumulated_score :: "Transaction \<Rightarrow> real" where
  "accumulated_score tx =
     (let score = 0;
          score = (if amount tx \<ge> 5000 then score + 50
                   else if amount tx \<ge> 1000 then score + 25
                   else if amount tx \<ge> 200 then score + 10
                   else score);
          score = (if truthy (country tx) \<and> upper (the (country tx)) \<in> risky_countries
                   then score + 15 else score);
          score = (if truthy (channel tx)
                      \<and> lower (the (channel tx)) \<in> {''web'', ''card-not-present''}
                   then score + 10 else score);
          score = (if truthy (merchant_category tx)
                      \<and> lower (the (merchant_category tx)) \<in> high_risk_mcc
                   then score + 10 else score);
          score = (if \<not> truthy (ip_address tx) \<or> \<not> truthy (device_id tx)
                   then score + 5 else score)
      in score)"

definition compute_risk_score :: "Transaction \<Rightarrow> real" where
  "compute_risk_score tx = min (accumulated_score tx) 100"

definition score_to_level :: "real \<Rightarrow> string" where
  "score_to_level score =
     (if score \<ge> 70 then ''high''
      else if score \<ge> 40 then ''medium''
      else ''low'')"

section \<open>Document store\<close>

text \<open>
  The module \<^verbatim>\<open>database\<close> with \<^verbatim>\<open>create_document\<close> and \<^verbatim>\<open>get_documents\<close> is not
  among the sources. The specification asks of it only "insert one document, get back
  its identity" and "fetch up to N documents", on named collections, and says that
  either may fail with a \<^verbatim>\<open>StorageError\<close>, which the service does not catch. A
  collection keeps its documents in insertion order; whether a collection can be
  reached is part of the state of the store, so that a write to one collection may
  succeed and the next write, to another, fail.
\<close>

datatype error = ValidationError | StorageError

datatype document = TransactionDoc Transaction | AlertDoc Alert

record store =
  collections :: "string \<Rightarrow> (ident \<times> document) list"
  available :: "string \<Rightarrow> bool"
  next_id :: nat

text \<open>
  Modelled from the spec: \<^verbatim>\<open>database.create_document\<close>, missing from the sources.
  It inserts one document into the named collection and gives back its identity, or
  fails with a \<^verbatim>\<open>StorageError\<close> and leaves the store as it is.
\<close>

definition create_document :: "string \<Rightarrow> document \<Rightarrow> store \<Rightarrow> (error + ident) \<times> store" where
  "create_document collection_name data s =
     (if available s collection_name
      then (Inr (next_id s),
            s\<lparr>collections := (collections s)
                 (collection_name := collections s collection_name @ [(next_id s, data)]),
              next_id := Suc (next_id s)\<rparr>)
      else (Inl StorageError, s))"

text \<open>
  Modelled from the spec: \<^verbatim>\<open>database.get_documents\<close>, missing from the sources. It
  fetches up to \<open>limit\<close> documents of the named collection, or fails with a
  \<^verbatim>\<open>StorageError\<close>. The service always passes the empty filter \<^verbatim>\<open>{}\<close>, which selects
  every document, so the filter is not a parameter here.
\<close>

definition get_documents :: "string \<Rightarrow> int \<Rightarrow> store \<Rightarrow> error + (ident \<times> document) list" where
  "get_documents collection_name limit s =
     (if available s collection_name
      then Inr (take (nat limit) (collections s collection_name))
      else Inl StorageError)"

text \<open>The documents that a step from store \<open>s\<close> to store \<open>s'\<close> appended to a collection.\<close>

definition written :: "string \<Rightarrow> store \<Rightarrow> store \<Rightarrow> (ident \<times> document) list" where
  "written collection_name s s' =
     drop (length (collections s collection_name)) (collections s' collection_name)"

section \<open>Request validation\<close>

text \<open>
  A request body, before validation. Each field of the JSON object is absent, \<^verbatim>\<open>null\<close>,
  given (it holds a value that the type of the field takes, and \<open>Given v\<close> carries the
  value \<open>v\<close> that the framework reads from it), or malformed (it holds a value that the
  type of the field refuses: text where a number is declared, a time that does not
  parse, a number where a string is declared). Keys that the schema does not know are
  dropped. Numbers are finite: the NaN and the infinities that Python's JSON reader
  lets through are outside this model.

  \<open>validate_transaction\<close> is what the declarations of class \<^verbatim>\<open>Transaction\<close> make the
  framework do before \<^verbatim>\<open>create_transaction\<close> is entered, field by field in the order
  of the schema: \<^verbatim>\<open>Field(...)\<close> is required, a field whose type is not \<^verbatim>\<open>Optional\<close>
  refuses \<^verbatim>\<open>null\<close>, a missing field takes its default, a malformed value is refused
  everywhere, and \<^verbatim>\<open>ge\<close>/\<^verbatim>\<open>le\<close> bound a number that is given. Every refusal is the
  one kind of error, so the order of the fields does not show in the result.
\<close>

datatype 'a field = Absent | Null | Given 'a | Malformed

record TransactionBody =
  body_transaction_id :: "string field"
  body_user_id :: "string field"
  body_amount :: "real field"
  body_currency :: "string field"
  body_merchant :: "string field"
  body_merchant_category :: "string field"
  body_country :: "string field"
  body_channel :: "string field"
  body_timestamp :: "datetime field"
  body_device_id :: "string field"
  body_ip_address :: "string field"
  body_risk_score :: "real field"
  body_risk_level :: "string field"
  body_is_fraud :: "bool field"

fun required :: "'a field \<Rightarrow> error + 'a" where
  "required (Given v) = Inr v"
| "required _ = Inl ValidationError"

fun with_default :: "'a \<Rightarrow> 'a field \<Rightarrow> error + 'a" where
  "with_default d Absent = Inr d"
| "with_default d (Given v) = Inr v"
| "with_default d _ = Inl ValidationError"

fun optional :: "'a option \<Rightarrow> 'a field \<Rightarrow> error + 'a option" where
  "optional d Absent = Inr d"
| "optional d Null = Inr None"
| "optional d (Given v) = Inr (Some v)"
| "optional d Malformed = Inl ValidationError"

fun in_range :: "real \<Rightarrow> real \<Rightarrow> real option \<Rightarrow> error + real option" where
  "in_range lo hi None = Inr None"
| "in_range lo hi (Some v) = (if v \<ge> lo \<and> v \<le> hi then Inr (Some v) else Inl ValidationError)"

definition validate_transaction :: "TransactionBody \<Rightarrow> error + Transaction" where
  "validate_transaction b =
     (case optional None (body_transaction_id b) of Inl e \<Rightarrow> Inl e | Inr tid \<Rightarrow>
     (case required (body_user_id b) of Inl e \<Rightarrow> Inl e | Inr uid \<Rightarrow>
     (case required (body_amount b) of Inl e \<Rightarrow> Inl e | Inr amt \<Rightarrow>
      if \<not> amt \<ge> 0 then Inl ValidationError else
     (case with_default ''USD'' (body_currency b) of Inl e \<Rightarrow> Inl e | Inr cur \<Rightarrow>
     (case optional None (body_merchant b) of Inl e \<Rightarrow> Inl e | Inr mer \<Rightarrow>
     (case optional None (body_merchant_category b) of Inl e \<Rightarrow> Inl e | Inr mcc \<Rightarrow>
     (case optional (Some ''US'') (body_country b) of Inl e \<Rightarrow> Inl e | Inr cty \<Rightarrow>
     (case optional (Some ''card'') (body_channel b) of Inl e \<Rightarrow> Inl e | Inr chn \<Rightarrow>
     (case optional None (body_timestamp b) of Inl e \<Rightarrow> Inl e | Inr ts \<Rightarrow>
     (case optional None (body_device_id b) of Inl e \<Rightarrow> Inl e | Inr dev \<Rightarrow>
     (case optional None (body_ip_address b) of Inl e \<Rightarrow> Inl e | Inr ip \<Rightarrow>
     (case optional None (body_risk_score b) of Inl e \<Rightarrow> Inl e | Inr given_score \<Rightarrow>
     (case in_range 0 100 given_score of Inl e \<Rightarrow> Inl e | Inr rs \<Rightarrow>
     (case optional None (body_risk_level b) of Inl e \<Rightarrow> Inl e | Inr rl \<Rightarrow>
     (case optional (Some False) (body_is_fraud b) of Inl e \<Rightarrow> Inl e | Inr fraud \<Rightarrow>
      Inr \<lparr>transaction_id = tid, user_id = uid, amount = amt, currency = cur,
           merchant = mer, merchant_category = mcc, country = cty, channel = chn,
           timestamp = ts, device_id = dev, ip_address = ip, risk_score = rs,
           risk_level = rl, is_fraud = fraud\<rparr>)))))))))))))))"


section \<open>Transaction service\<close>

text \<open>
  \<^verbatim>\<open>create_transaction\<close> with its effects made explicit: the store is passed in and
  returned, an exception of \<^verbatim>\<open>create_document\<close> ends the call with the store as it is
  at that moment, \<open>now\<close> is the value of \<^verbatim>\<open>datetime.now(timezone.utc)\<close>, and \<open>fmt\<close>
  is the text that an f-string gives for a \<^verbatim>\<open>float\<close>. The dictionary \<^verbatim>\<open>data\<close> made by
  \<^verbatim>\<open>model_dump\<close> has the fields of the schema, so it is a \<^typ>\<open>Transaction\<close> again.
  The constructor of \<^verbatim>\<open>Alert\<close> validates too: it is given strings and a list of
  non-\<^verbatim>\<open>None\<close> strings, and a score that \<open>compute_risk_score\<close> keeps within the bounds
  of the schema (shown below), so it does not fail. The list comprehension for the tags
  is \<open>tags_of\<close>.
\<close>

definition tags_of :: "string option list \<Rightarrow> string option list" where
  "tags_of ts = filter truthy ts"

definition create_transaction ::
  "(real \<Rightarrow> string) \<Rightarrow> datetime \<Rightarrow> Transaction \<Rightarrow> store
     \<Rightarrow> (error + CreateTransactionResponse) \<times> store" where
  "create_transaction fmt now payload s =
     (let data = payload;
          data = (if timestamp data = None then data\<lparr>timestamp := Some now\<rparr> else data);
          score = compute_risk_score payload;
          level = score_to_level score;
          data = data\<lparr>risk_score := Some score\<rparr>;
          data = data\<lparr>risk_level := Some level\<rparr>
      in case create_document ''transaction'' (TransactionDoc data) s of
           (Inl e, s1) \<Rightarrow> (Inl e, s1)
         | (Inr inserted_id, s1) \<Rightarrow>
             if level = ''high'' then
               (let alert = \<lparr>transaction_ref = inserted_id,
                              alert_user_id = user_id payload,
                              reason = ''High-risk transaction: $'' @ fmt (amount payload)
                                 @ '' '' @ currency payload @ '' at ''
                                 @ (if truthy (merchant payload) then the (merchant payload)
                                    else ''unknown merchant''),
                              alert_risk_score = score,
                              alert_risk_level = level,
                              tags = map the (tags_of [merchant_category payload,
                                                        channel payload, country payload])\<rparr>
                in case create_document ''alert'' (AlertDoc alert) s1 of
                     (Inl e, s2) \<Rightarrow> (Inl e, s2)
                   | (Inr _, s2) \<Rightarrow>
                       (Inr \<lparr>response_id = inserted_id, response_risk_score = score,
                             response_risk_level = level\<rparr>, s2))
             else (Inr \<lparr>response_id = inserted_id, response_risk_score = score,
                        response_risk_level = level\<rparr>, s1))"

text \<open>
  The route \<^verbatim>\<open>POST /api/transactions\<close>: the framework validates the body against the
  schema and calls the handler only with a valid payload.
\<close>

definition post_api_transactions ::
  "(real \<Rightarrow> string) \<Rightarrow> datetime \<Rightarrow> TransactionBody \<Rightarrow> store
     \<Rightarrow> (error + CreateTransactionResponse) \<times> store" where
  "post_api_transactions fmt now body s =
     (case validate_transaction body of
        Inl e \<Rightarrow> (Inl e, s)
      | Inr payload \<Rightarrow> create_transaction fmt now payload s)"

text \<open>
  The two list handlers. \<^verbatim>\<open>limit or 50\<close> is 50 when \<^verbatim>\<open>limit\<close> is \<^verbatim>\<open>None\<close> or 0 and
  \<^verbatim>\<open>limit\<close> otherwise; a query without \<^verbatim>\<open>limit\<close> gives the default 50 of the
  signature, which \<open>None\<close> stands for as well. The loop over the items replaces the
  identity and the time of each item by their text in place; it keeps the number and
  the order of the items, and the items are returned here as the store gave them.
\<close>

definition clamp_limit :: "int option \<Rightarrow> int" where
  "clamp_limit limit =
     min (max 1 (case limit of None \<Rightarrow> 50 | Some n \<Rightarrow> if n = 0 then 50 else n)) 200"

definition list_transactions :: "int option \<Rightarrow> store \<Rightarrow> error + (ident \<times> document) list" where
  "list_transactions limit s =
     (let limit = clamp_limit limit
      in case get_documents ''transaction'' limit s of
           Inl e \<Rightarrow> Inl e
         | Inr items \<Rightarrow> Inr items)"

definition list_alerts :: "int option \<Rightarrow> store \<Rightarrow> error + (ident \<times> document) list" where
  "list_alerts limit s =
     (let limit = clamp_limit limit
      in case get_documents ''alert'' limit s of
           Inl e \<Rightarrow> Inl e
         | Inr items \<Rightarrow> Inr items)"

section \<open>The scoring rules as the specification words them\<close>

text \<open>
  The specification gives the score as a sum of independent contributions. Comparing
  without regard to case is comparing the lower-case forms; a field that is absent or
  empty matches nothing.
\<close>

definition equal_ignoring_case :: "string \<Rightarrow> string \<Rightarrow> bool" where
  "equal_ignoring_case a b = (lower a = lower b)"

definition one_of_ignoring_case :: "string option \<Rightarrow> string set \<Rightarrow> bool" where
  "one_of_ignoring_case v ws =
     (case v of None \<Rightarrow> False | Some a \<Rightarrow> a \<noteq> [] \<and> (\<exists>w\<in>ws. equal_ignoring_case a w))"

definition absent_or_empty :: "string option \<Rightarrow> bool" where
  "absent_or_empty v = (v = None \<or> v = Some [])"

definition amount_points :: "Transaction \<Rightarrow> real" where
  "amount_points tx =
     (if amount tx \<ge> 5000 then 50
      else if amount tx \<ge> 1000 then 25
      else if amount tx \<ge> 200 then 10
      else 0)"

definition country_points :: "Transaction \<Rightarrow> real" where
  "country_points tx =
     (if one_of_ignoring_case (country tx) {''RU'', ''NG'', ''UA'', ''BR'', ''CN''}
      then 15 else 0)"

definition channel_points :: "Transaction \<Rightarrow> real" where
  "channel_points tx =
     (if one_of_ignoring_case (channel tx) {''web'', ''card-not-present''} then 10 else 0)"

definition category_points :: "Transaction \<Rightarrow> real" where
  "category_points tx =
     (if one_of_ignoring_case (merchant_category tx) {''gambling'', ''crypto'', ''adult''}
      then 10 else 0)"

definition identity_points :: "Transaction \<Rightarrow> real" where
  "identity_points tx =
     (if absent_or_empty (ip_address tx) \<or> absent_or_empty (device_id tx) then 5 else 0)"

definition sum_of_contributions :: "Transaction \<Rightarrow> real" where
  "sum_of_contributions tx =
     amount_points tx + country_points tx + channel_points tx + category_points tx
       + identity_points tx"

text \<open>
  The tags as the specification words them: each of the three fields gives its value
  when it has one that is not empty, in the order category, channel, country.
\<close>

definition present :: "string option \<Rightarrow> string list" where
  "present v = (case v of None \<Rightarrow> [] | Some t \<Rightarrow> if t = [] then [] else [t])"

section \<open>Concrete inputs\<close>

text \<open>The four end-to-end scenarios of the specification, and a transaction without context.\<close>

definition scenario_1 :: Transaction where
  "scenario_1 = \<lparr>transaction_id = None, user_id = ''u1'', amount = 6000, currency = ''USD'',
     merchant = None, merchant_category = Some ''gambling'', country = Some ''RU'',
     channel = Some ''web'', timestamp = None, device_id = None, ip_address = None,
     risk_score = None, risk_level = None, is_fraud = Some False\<rparr>"

definition scenario_2 :: Transaction where
  "scenario_2 = \<lparr>transaction_id = None, user_id = ''u2'', amount = 150, currency = ''USD'',
     merchant = None, merchant_category = None, country = Some ''US'',
     channel = Some ''card'', timestamp = None, device_id = Some ''d1'',
     ip_address = Some ''1.2.3.4'', risk_score = None, risk_level = None,
     is_fraud = Some False\<rparr>"

definition scenario_3 :: Transaction where
  "scenario_3 = \<lparr>transaction_id = None, user_id = ''u3'', amount = 1200, currency = ''USD'',
     merchant = None, merchant_category = None, country = Some ''DE'',
     channel = Some ''mobile'', timestamp = None, device_id = None, ip_address = None,
     risk_score = None, risk_level = None, is_fraud = Some False\<rparr>"

definition scenario_4 :: Transaction where
  "scenario_4 = \<lparr>transaction_id = None, user_id = ''u4'', amount = 500, currency = ''USD'',
     merchant = None, merchant_category = Some ''adult'', country = Some ''NG'',
     channel = Some ''card-not-present'', timestamp = None, device_id = Some ''dev'',
     ip_address = Some ''9.9.9.9'', risk_score = None, risk_level = None,
     is_fraud = Some False\<rparr>"

definition bare_transaction :: Transaction where
  "bare_transaction = \<lparr>transaction_id = None, user_id = ''u5'', amount = 0, currency = ''EUR'',
     merchant = None, merchant_category = Some [], country = None,
     channel = Some [], timestamp = None, device_id = Some ''dev'',
     ip_address = Some ''9.9.9.9'', risk_score = None, risk_level = None,
     is_fraud = None\<rparr>"

text \<open>
  A rendering of amounts for the examples, a store that holds nothing and accepts every
  write, and a store whose alert collection cannot be reached.
\<close>

definition sample_fmt :: "real \<Rightarrow> string" where
  "sample_fmt x = ''6000.0''"

definition empty_store :: store where
  "empty_store = \<lparr>collections = (\<lambda>c. []), available = (\<lambda>c. True), next_id = 0\<rparr>"

definition alerts_down_store :: store where
  "alerts_down_store =
     \<lparr>collections = (\<lambda>c. []), available = (\<lambda>c. c = ''transaction''), next_id = 0\<rparr>"

text \<open>What a create-call for scenario 1 writes to an empty store.\<close>

definition stored_1 :: Transaction where
  "stored_1 = scenario_1\<lparr>timestamp := Some (Datetime 0), risk_score := Some 90,
     risk_level := Some ''high''\<rparr>"

definition alert_1 :: Alert where
  "alert_1 = \<lparr>transaction_ref = 0, alert_user_id = ''u1'',
     reason = ''High-risk transaction: $6000.0 USD at unknown merchant'',
     alert_risk_score = 90, alert_risk_level = ''high'',
     tags = [''gambling'', ''web'', ''RU'']\<rparr>"

text \<open>
  Request bodies: scenario 1 as a caller sends it, the same with a fraud label, with a
  risk score beyond the bounds of the schema, with a time that does not parse, and with
  a negative amount; and a store that holds three transactions.
\<close>

definition body_1 :: TransactionBody where
  "body_1 = \<lparr>body_transaction_id = Absent, body_user_id = Given ''u1'',
     body_amount = Given 6000, body_currency = Absent, body_merchant = Absent,
     body_merchant_category = Given ''gambling'', body_country = Given ''RU'',
     body_channel = Given ''web'', body_timestamp = Absent, body_device_id = Absent,
     body_ip_address = Absent, body_risk_score = Absent, body_risk_level = Absent,
     body_is_fraud = Absent\<rparr>"

definition body_flagged :: TransactionBody where
  "body_flagged = body_1\<lparr>body_is_fraud := Given True\<rparr>"

definition body_score_150 :: TransactionBody where
  "body_score_150 = body_1\<lparr>body_risk_score := Given 150\<rparr>"



definition three_store :: store where
  "three_store =
     \<lparr>collections = (\<lambda>c. [])(''transaction'' :=
        [(0, TransactionDoc scenario_2), (1, TransactionDoc scenario_3),
         (2, TransactionDoc scenario_4)]),
      available = (\<lambda>c. True), next_id = 3\<rparr>"

section \<open>Case folding\<close>

lemma lower_upper_char: "lower_char (upper_char c) = lower_char c"
  unfolding lower_char_def upper_char_def Let_def
  by (auto simp: char_of_eq_iff take_bit_eq_mod intro!: of_char_eqI[where 'a=nat])

lemma upper_lower_char: "upper_char (lower_char c) = upper_char c"
  unfolding lower_char_def upper_char_def Let_def
  by (auto simp: char_of_eq_iff take_bit_eq_mod intro!: of_char_eqI[where 'a=nat])

lemma lower_upper: "lower (upper s) = lower s"
  by (simp add: lower_def upper_def lower_upper_char)

lemma upper_lower: "upper (lower s) = upper s"
  by (simp add: lower_def upper_def upper_lower_char)

lemma upper_eq_iff: "upper w = w \<Longrightarrow> upper a = w \<longleftrightarrow> lower a = lower w"
  by (metis lower_upper upper_lower)

lemmas case_eval = upper_def lower_def upper_char_def lower_char_def char_of_eq_iff

lemma upper_risky:
  "upper a \<in> risky_countries
     \<longleftrightarrow> (\<exists>w\<in>{''RU'', ''NG'', ''UA'', ''BR'', ''CN''}. equal_ignoring_case a w)"
proof -
  have u: "upper ''RU'' = ''RU''" "upper ''NG'' = ''NG''" "upper ''UA'' = ''UA''"
    "upper ''BR'' = ''BR''" "upper ''CN'' = ''CN''"
    by (simp_all add: case_eval)
  show ?thesis
    unfolding risky_countries_def equal_ignoring_case_def
    using u by (simp add: upper_eq_iff)
qed

lemma lower_channel:
  "lower a \<in> {''web'', ''card-not-present''}
     \<longleftrightarrow> (\<exists>w\<in>{''web'', ''card-not-present''}. equal_ignoring_case a w)"
proof -
  have u: "lower ''web'' = ''web''" "lower ''card-not-present'' = ''card-not-present''"
    by (simp_all add: case_eval)
  show ?thesis
    unfolding equal_ignoring_case_def
    using u by simp
qed

lemma lower_mcc:
  "lower a \<in> high_risk_mcc
     \<longleftrightarrow> (\<exists>w\<in>{''gambling'', ''crypto'', ''adult''}. equal_ignoring_case a w)"
proof -
  have u: "lower ''gambling'' = ''gambling''" "lower ''crypto'' = ''crypto''"
    "lower ''adult'' = ''adult''"
    by (simp_all add: case_eval)
  show ?thesis
    unfolding equal_ignoring_case_def high_risk_mcc_def
    using u by simp
qed

section \<open>Properties of the scorer\<close>

lemma country_rule:
  "(truthy (country tx) \<and> upper (the (country tx)) \<in> risky_countries)
     = one_of_ignoring_case (country tx) {''RU'', ''NG'', ''UA'', ''BR'', ''CN''}"
  by (cases "country tx") (simp_all add: one_of_ignoring_case_def upper_risky)

lemma channel_rule:
  "(truthy (channel tx) \<and> lower (the (channel tx)) \<in> {''web'', ''card-not-present''})
     = one_of_ignoring_case (channel tx) {''web'', ''card-not-present''}"
  by (cases "channel tx") (simp_all add: one_of_ignoring_case_def lower_channel del: insert_iff)

lemma category_rule:
  "(truthy (merchant_category tx) \<and> lower (the (merchant_category tx)) \<in> high_risk_mcc)
     = one_of_ignoring_case (merchant_category tx) {''gambling'', ''crypto'', ''adult''}"
  by (cases "merchant_category tx") (simp_all add: one_of_ignoring_case_def lower_mcc)

lemma identity_rule:
  "(\<not> truthy (ip_address tx) \<or> \<not> truthy (device_id tx))
     = (absent_or_empty (ip_address tx) \<or> absent_or_empty (device_id tx))"
  by (cases "ip_address tx"; cases "device_id tx") (simp_all add: absent_or_empty_def)

lemma accumulated_score_sum: "accumulated_score tx = sum_of_contributions tx"
  unfolding accumulated_score_def Let_def country_rule channel_rule category_rule identity_rule
  by (simp add: sum_of_contributions_def amount_points_def country_points_def
      channel_points_def category_points_def identity_points_def)

lemma absent_matches_nothing: "absent_or_empty v \<Longrightarrow> \<not> one_of_ignoring_case v ws"
  by (auto simp: absent_or_empty_def one_of_ignoring_case_def)

text \<open>The arithmetic of the accumulation, for any outcome of the tests.\<close>

lemma score_arith:
  "(let score = (0::real);
        score = (if a5 then score + 50 else if a1 then score + 25
                 else if a2 then score + 10 else score);
        score = (if c then score + 15 else score);
        score = (if ch then score + 10 else score);
        score = (if m then score + 10 else score);
        score = (if i then score + 5 else score)
    in score)
   = 5 * real_of_int ((if a5 then 10 else if a1 then 5 else if a2 then 2 else 0)
       + (if c then 3 else 0) + (if ch then 2 else 0) + (if m then 2 else 0)
       + (if i then 1 else 0))"
  by (simp add: Let_def)

lemma score_arith_bounds:
  "0 \<le> 5 * real_of_int ((if a5 then 10 else if a1 then 5 else if a2 then 2 else 0)
       + (if c then 3 else 0) + (if ch then 2 else 0) + (if m then 2 else 0)
       + (if i then 1 else 0))
   \<and> 5 * real_of_int ((if a5 then 10 else if a1 then 5 else if a2 then 2 else 0)
       + (if c then 3 else 0) + (if ch then 2 else 0) + (if m then 2 else 0)
       + (if i then 1 else 0)) \<le> 90"
  by simp

lemma accumulated_score_multiple:
  "accumulated_score tx = 5 * real_of_int
     ((if amount tx \<ge> 5000 then 10 else if amount tx \<ge> 1000 then 5
       else if amount tx \<ge> 200 then 2 else 0)
      + (if truthy (country tx) \<and> upper (the (country tx)) \<in> risky_countries then 3 else 0)
      + (if truthy (channel tx) \<and> lower (the (channel tx)) \<in> {''web'', ''card-not-present''}
         then 2 else 0)
      + (if truthy (merchant_category tx)
            \<and> lower (the (merchant_category tx)) \<in> high_risk_mcc then 2 else 0)
      + (if \<not> truthy (ip_address tx) \<or> \<not> truthy (device_id tx) then 1 else 0))"
  unfolding accumulated_score_def by (rule score_arith)

lemma accumulated_score_bounds: "0 \<le> accumulated_score tx \<and> accumulated_score tx \<le> 90"
  unfolding accumulated_score_multiple by (rule score_arith_bounds)

lemmas scenario_defs = scenario_1_def scenario_2_def scenario_3_def scenario_4_def
  bare_transaction_def

lemmas score_eval = compute_risk_score_def accumulated_score_def Let_def risky_countries_def
  high_risk_mcc_def case_eval

lemma scenario_scores:
  "compute_risk_score scenario_1 = 90" "compute_risk_score scenario_2 = 0"
  "compute_risk_score scenario_3 = 30" "compute_risk_score scenario_4 = 45"
  "compute_risk_score bare_transaction = 0"
  by (simp_all add: scenario_defs score_eval)

text \<open>
  C1. The risk score is the sum of the five contributions of the specification, cut off
  at 100: one amount bracket (50 from 5000, else 25 from 1000, else 10 from 200, else
  0), 15 for a country that is one of RU, NG, UA, BR, CN without regard to case, 10 for a
  channel that is web or card-not-present, 10 for a category that is gambling, crypto or
  adult, and 5 when the IP address or the device ID is absent or empty. The amount
  brackets exclude each other, and an absent or empty country, channel or category
  contributes nothing.
\<close>

theorem risk_score_is_clamped_sum:
  "compute_risk_score tx = min (sum_of_contributions tx) 100
   \<and> (amount tx \<ge> 5000 \<longrightarrow> amount_points tx = 50)
   \<and> (1000 \<le> amount tx \<and> amount tx < 5000 \<longrightarrow> amount_points tx = 25)
   \<and> (200 \<le> amount tx \<and> amount tx < 1000 \<longrightarrow> amount_points tx = 10)
   \<and> (amount tx < 200 \<longrightarrow> amount_points tx = 0)
   \<and> (absent_or_empty (country tx) \<longrightarrow> country_points tx = 0)
   \<and> (absent_or_empty (channel tx) \<longrightarrow> channel_points tx = 0)
   \<and> (absent_or_empty (merchant_category tx) \<longrightarrow> category_points tx = 0)"
proof -
  have "compute_risk_score tx = min (sum_of_contributions tx) 100"
    by (simp add: compute_risk_score_def accumulated_score_sum)
  moreover have "absent_or_empty (country tx) \<longrightarrow> country_points tx = 0"
    by (simp add: country_points_def absent_matches_nothing)
  moreover have "absent_or_empty (channel tx) \<longrightarrow> channel_points tx = 0"
    by (simp add: channel_points_def absent_matches_nothing)
  moreover have "absent_or_empty (merchant_category tx) \<longrightarrow> category_points tx = 0"
    by (simp add: category_points_def absent_matches_nothing)
  ultimately show ?thesis
    by (simp add: amount_points_def)
qed

theorem risk_score_is_clamped_sum_witness:
  "amount scenario_1 \<ge> 5000 \<and> amount_points scenario_1 = 50
   \<and> compute_risk_score scenario_1 = min (sum_of_contributions scenario_1) 100
   \<and> sum_of_contributions scenario_1 = 50 + 15 + 10 + 10 + 5
   \<and> 1000 \<le> amount scenario_3 \<and> amount scenario_3 < 5000 \<and> amount_points scenario_3 = 25
   \<and> absent_or_empty (merchant_category scenario_3) \<and> category_points scenario_3 = 0
   \<and> 200 \<le> amount scenario_4 \<and> amount scenario_4 < 1000 \<and> amount_points scenario_4 = 10
   \<and> amount scenario_2 < 200 \<and> amount_points scenario_2 = 0
   \<and> absent_or_empty (country bare_transaction) \<and> country_points bare_transaction = 0
   \<and> absent_or_empty (channel bare_transaction) \<and> channel_points bare_transaction = 0"
proof -
  have s: "sum_of_contributions scenario_1 = 50 + 15 + 10 + 10 + 5"
    using accumulated_score_sum [of scenario_1, symmetric]
    by (simp add: scenario_1_def score_eval)
  have h: "amount scenario_1 \<ge> 5000" "1000 \<le> amount scenario_3 \<and> amount scenario_3 < 5000"
    "200 \<le> amount scenario_4 \<and> amount scenario_4 < 1000" "amount scenario_2 < 200"
    "absent_or_empty (merchant_category scenario_3)"
    "absent_or_empty (country bare_transaction)" "absent_or_empty (channel bare_transaction)"
    by (simp_all add: scenario_defs absent_or_empty_def)
  show ?thesis
    using h s risk_score_is_clamped_sum [of scenario_1] risk_score_is_clamped_sum [of scenario_2]
      risk_score_is_clamped_sum [of scenario_3] risk_score_is_clamped_sum [of scenario_4]
      risk_score_is_clamped_sum [of bare_transaction]
    by simp
qed

text \<open>
  C7. For every valid transaction (one whose amount is not negative), the risk score
  lies between 0 and 100.
\<close>

theorem risk_score_in_range:
  "0 \<le> amount tx \<Longrightarrow> 0 \<le> compute_risk_score tx \<and> compute_risk_score tx \<le> 100"
  using accumulated_score_bounds [of tx] by (simp add: compute_risk_score_def)

theorem risk_score_in_range_witness:
  "0 \<le> amount scenario_4 \<and> 0 \<le> compute_risk_score scenario_4
   \<and> compute_risk_score scenario_4 \<le> 100"
proof -
  have h: "0 \<le> amount scenario_4" by (simp add: scenario_4_def)
  show ?thesis using h risk_score_in_range [OF h] by simp
qed

text \<open>
  C10. The points accumulated by the rules never exceed 90, so the score never exceeds
  90, the cut at 100 never changes the accumulated value, and the score is an integer
  multiple of 5.
\<close>

theorem risk_score_at_most_90:
  "accumulated_score tx \<le> 90
   \<and> compute_risk_score tx \<le> 90
   \<and> (\<exists>k::int. compute_risk_score tx = 5 * real_of_int k)
   \<and> compute_risk_score tx = accumulated_score tx"
proof -
  have b: "accumulated_score tx \<le> 90"
    using accumulated_score_bounds by simp
  then have e: "compute_risk_score tx = accumulated_score tx"
    by (simp add: compute_risk_score_def)
  have "\<exists>k::int. accumulated_score tx = 5 * real_of_int k"
    using accumulated_score_multiple by blast
  with b e show ?thesis by simp
qed

theorem risk_score_at_most_90_witness:
  "accumulated_score scenario_1 = 90 \<and> compute_risk_score scenario_1 = 90
   \<and> compute_risk_score scenario_1 = 5 * real_of_int 18"
proof -
  have "accumulated_score scenario_1 = 90"
    by (simp add: scenario_1_def score_eval)
  then show ?thesis
    using risk_score_at_most_90 [of scenario_1] by simp
qed

section \<open>Properties of the classifier\<close>

lemma scenario_levels:
  "score_to_level (compute_risk_score scenario_1) = ''high''"
  "score_to_level (compute_risk_score scenario_2) = ''low''"
  "score_to_level (compute_risk_score scenario_3) = ''low''"
  "score_to_level (compute_risk_score scenario_4) = ''medium''"
  by (simp_all add: scenario_scores score_to_level_def)

text \<open>
  C3. On the scores from 0 to 100 the classifier answers low exactly on [0,40), medium
  exactly on [40,70) and high exactly on [70,100]; it always answers one of the three
  labels, which differ from each other.
\<close>

theorem score_to_level_partition:
  "0 \<le> score \<Longrightarrow> score \<le> 100 \<Longrightarrow>
     (score < 40 \<longleftrightarrow> score_to_level score = ''low'')
   \<and> (40 \<le> score \<and> score < 70 \<longleftrightarrow> score_to_level score = ''medium'')
   \<and> (70 \<le> score \<longleftrightarrow> score_to_level score = ''high'')
   \<and> score_to_level score \<in> {''low'', ''medium'', ''high''}"
  by (simp add: score_to_level_def)

theorem score_to_level_partition_witness:
  "(0::real) \<le> 40 \<and> (40::real) \<le> 100 \<and> score_to_level 40 = ''medium''
   \<and> score_to_level 40 \<noteq> ''low'' \<and> score_to_level 40 \<noteq> ''high''"
proof -
  have h: "(0::real) \<le> 40" "(40::real) \<le> 100" by simp_all
  show ?thesis using score_to_level_partition [OF h] by simp
qed

section \<open>Properties of the create-call\<close>

text \<open>What one call appends to the two collections, by the four ways it can go.\<close>

lemma written_alert_cases:
  assumes "create_transaction fmt now payload s = (res, s')"
  shows "(written ''alert'' s s' = [] \<and>
            (res = Inl StorageError
               \<or> score_to_level (compute_risk_score payload) \<noteq> ''high''))
       \<or> (\<exists>a. written ''alert'' s s' = [(Suc (next_id s), AlertDoc a)]
            \<and> (\<exists>r. res = Inr r)
            \<and> score_to_level (compute_risk_score payload) = ''high''
            \<and> transaction_ref a = next_id s
            \<and> alert_user_id a = user_id payload
            \<and> alert_risk_score a = compute_risk_score payload
            \<and> alert_risk_level a = ''high''
            \<and> tags a = map the (tags_of [merchant_category payload, channel payload,
                                          country payload]))"
  using assms
  unfolding create_transaction_def create_document_def written_def Let_def
  by (auto split: if_splits)

lemma written_transaction_cases:
  assumes "create_transaction fmt now payload s = (res, s')"
  shows "(written ''transaction'' s s' = [] \<and> res = Inl StorageError \<and> s' = s)
       \<or> (\<exists>t. written ''transaction'' s s' = [(next_id s, TransactionDoc t)]
            \<and> t = payload\<lparr>timestamp :=
                       (if timestamp payload = None then Some now else timestamp payload),
                     risk_score := Some (compute_risk_score payload),
                     risk_level := Some (score_to_level (compute_risk_score payload))\<rparr>)"
  using assms
  unfolding create_transaction_def create_document_def written_def Let_def
  by (auto split: if_splits)

lemma create_transaction_completes:
  assumes "create_transaction fmt now payload s = (res, s')"
  shows "(\<exists>r. res = Inr r) \<longleftrightarrow>
           available s ''transaction''
           \<and> (score_to_level (compute_risk_score payload) = ''high'' \<longrightarrow> available s ''alert'')"
  using assms
  unfolding create_transaction_def create_document_def Let_def
  by (auto split: if_splits)

lemma create_transaction_error:
  "create_transaction fmt now payload s = (Inl e, s') \<Longrightarrow> e = StorageError"
  unfolding create_transaction_def create_document_def Let_def
  by (auto split: if_splits)

lemma transaction_write_fails:
  assumes "create_transaction fmt now payload s = (res, s')"
    and "\<not> available s ''transaction''"
  shows "res = Inl StorageError \<and> s' = s"
  using assms
  unfolding create_transaction_def create_document_def Let_def
  by (auto split: if_splits)

lemma alert_write_fails:
  assumes "create_transaction fmt now payload s = (res, s')"
    and "available s ''transaction''"
    and "score_to_level (compute_risk_score payload) = ''high''"
    and "\<not> available s ''alert''"
  shows "res = Inl StorageError \<and> written ''alert'' s s' = []
    \<and> written ''transaction'' s s' = [(next_id s, TransactionDoc
          (payload\<lparr>timestamp :=
                       (if timestamp payload = None then Some now else timestamp payload),
                     risk_score := Some (compute_risk_score payload),
                     risk_level := Some ''high''\<rparr>))]"
  using assms
  unfolding create_transaction_def create_document_def written_def Let_def
  by (auto split: if_splits)

lemma high_iff: "score_to_level score = ''high'' \<longleftrightarrow> score \<ge> 70"
  by (simp add: score_to_level_def)

lemma scenario_1_run:
  "create_transaction sample_fmt (Datetime 0) scenario_1 empty_store
     = (Inr \<lparr>response_id = 0, response_risk_score = 90, response_risk_level = ''high''\<rparr>,
        \<lparr>collections = (\<lambda>c. [])(''transaction'' := [(0, TransactionDoc stored_1)],
                                    ''alert'' := [(1, AlertDoc alert_1)]),
         available = (\<lambda>c. True), next_id = 2\<rparr>)"
  unfolding create_transaction_def Let_def scenario_scores
  by (simp add: create_document_def empty_store_def stored_1_def alert_1_def scenario_1_def
      sample_fmt_def tags_of_def score_to_level_def)

lemma scenario_1_written:
  "written ''alert'' empty_store
     (snd (create_transaction sample_fmt (Datetime 0) scenario_1 empty_store))
     = [(1, AlertDoc alert_1)]"
  "written ''transaction'' empty_store
     (snd (create_transaction sample_fmt (Datetime 0) scenario_1 empty_store))
     = [(0, TransactionDoc stored_1)]"
  unfolding scenario_1_run written_def by (simp_all add: empty_store_def)

text \<open>
  C2, as amended. A create-call appends at most one alert, appends one only if the level
  of the computed score is high (which is the same as a score of at least 70), and none
  when the level is medium. The call returns a response exactly when the store took the
  writes it was asked for; a call that returns a response has appended an alert if and
  only if the level is high, and a call that fails has appended none and fails with a
  StorageError. When the transaction write fails, the store is left as it was. When the
  level is high and the transaction write succeeds but the alert write fails, the
  transaction stays stored, with the level high and the computed score, and without an
  alert.
\<close>

theorem alert_iff_high_on_completion:
  assumes "create_transaction fmt now payload s = (res, s')"
  shows "length (written ''alert'' s s') \<le> 1
    \<and> (written ''alert'' s s' \<noteq> [] \<longrightarrow> score_to_level (compute_risk_score payload) = ''high'')
    \<and> (score_to_level (compute_risk_score payload) = ''medium'' \<longrightarrow> written ''alert'' s s' = [])
    \<and> ((\<exists>r. res = Inr r) \<longleftrightarrow>
          available s ''transaction''
          \<and> (score_to_level (compute_risk_score payload) = ''high'' \<longrightarrow> available s ''alert''))
    \<and> ((\<exists>r. res = Inr r) \<longrightarrow>
          ((\<exists>i a. written ''alert'' s s' = [(i, AlertDoc a)])
             \<longleftrightarrow> score_to_level (compute_risk_score payload) = ''high''))
    \<and> (written ''alert'' s s' \<noteq> [] \<longrightarrow> (\<exists>r. res = Inr r))
    \<and> ((\<nexists>r. res = Inr r) \<longrightarrow> res = Inl StorageError)
    \<and> (\<not> available s ''transaction'' \<longrightarrow> res = Inl StorageError \<and> s' = s)
    \<and> (available s ''transaction''
         \<and> score_to_level (compute_risk_score payload) = ''high''
         \<and> \<not> available s ''alert''
       \<longrightarrow> res = Inl StorageError
           \<and> written ''alert'' s s' = []
           \<and> (\<exists>i t. written ''transaction'' s s' = [(i, TransactionDoc t)]
                 \<and> risk_level t = Some ''high''
                 \<and> risk_score t = Some (compute_risk_score payload)
                 \<and> user_id t = user_id payload))
    \<and> (score_to_level (compute_risk_score payload) = ''high''
          \<longleftrightarrow> compute_risk_score payload \<ge> 70)"
proof -
  have e: "written ''alert'' s s' \<noteq> [] \<longrightarrow> (\<exists>r. res = Inr r)"
    using written_alert_cases [OF assms] by auto
  have a: "length (written ''alert'' s s') \<le> 1"
    using written_alert_cases [OF assms] by auto
  have b: "written ''alert'' s s' \<noteq> [] \<longrightarrow> score_to_level (compute_risk_score payload) = ''high''"
    using written_alert_cases [OF assms] by auto
  have c: "score_to_level (compute_risk_score payload) = ''medium'' \<longrightarrow> written ''alert'' s s' = []"
    using written_alert_cases [OF assms] by auto
  have d: "(\<exists>r. res = Inr r) \<longrightarrow>
          ((\<exists>i a. written ''alert'' s s' = [(i, AlertDoc a)])
             \<longleftrightarrow> score_to_level (compute_risk_score payload) = ''high'')"
    using written_alert_cases [OF assms] by auto
  have f: "(\<nexists>r. res = Inr r) \<longrightarrow> res = Inl StorageError"
    using create_transaction_error [of fmt now payload s _ s'] assms by (cases res) auto
  have g: "\<not> available s ''transaction'' \<longrightarrow> res = Inl StorageError \<and> s' = s"
    using transaction_write_fails [OF assms] by blast
  have h: "available s ''transaction''
         \<and> score_to_level (compute_risk_score payload) = ''high''
         \<and> \<not> available s ''alert''
       \<longrightarrow> res = Inl StorageError
           \<and> written ''alert'' s s' = []
           \<and> (\<exists>i t. written ''transaction'' s s' = [(i, TransactionDoc t)]
                 \<and> risk_level t = Some ''high''
                 \<and> risk_score t = Some (compute_risk_score payload)
                 \<and> user_id t = user_id payload)"
  proof (intro impI, elim conjE)
    assume av: "available s ''transaction''"
      and hi: "score_to_level (compute_risk_score payload) = ''high''"
      and na: "\<not> available s ''alert''"
    note w = alert_write_fails [OF assms av hi na]
    have "\<exists>i t. written ''transaction'' s s' = [(i, TransactionDoc t)]
                 \<and> risk_level t = Some ''high''
                 \<and> risk_score t = Some (compute_risk_score payload)
                 \<and> user_id t = user_id payload"
      using w by simp
    with w show "res = Inl StorageError
           \<and> written ''alert'' s s' = []
           \<and> (\<exists>i t. written ''transaction'' s s' = [(i, TransactionDoc t)]
                 \<and> risk_level t = Some ''high''
                 \<and> risk_score t = Some (compute_risk_score payload)
                 \<and> user_id t = user_id payload)"
      by blast
  qed
  have i: "(\<exists>r. res = Inr r) \<longleftrightarrow>
          available s ''transaction''
          \<and> (score_to_level (compute_risk_score payload) = ''high'' \<longrightarrow> available s ''alert'')"
    using create_transaction_completes [OF assms] .
  have j: "score_to_level (compute_risk_score payload) = ''high''
          \<longleftrightarrow> compute_risk_score payload \<ge> 70"
    by (rule high_iff)
  show ?thesis
    by (intro conjI a b c i d e f g h j)
qed

theorem alert_iff_high_on_completion_witness:
  "(\<exists>r. fst (create_transaction sample_fmt (Datetime 0) scenario_1 empty_store) = Inr r)
   \<and> (\<exists>i a. written ''alert'' empty_store
         (snd (create_transaction sample_fmt (Datetime 0) scenario_1 empty_store))
         = [(i, AlertDoc a)])
   \<and> score_to_level (compute_risk_score scenario_1) = ''high''
   \<and> compute_risk_score scenario_1 \<ge> 70
   \<and> available alerts_down_store ''transaction'' \<and> \<not> available alerts_down_store ''alert''
   \<and> fst (create_transaction sample_fmt (Datetime 0) scenario_1 alerts_down_store)
       = Inl StorageError
   \<and> written ''alert'' alerts_down_store
         (snd (create_transaction sample_fmt (Datetime 0) scenario_1 alerts_down_store)) = []
   \<and> (\<exists>i t. written ''transaction'' alerts_down_store
         (snd (create_transaction sample_fmt (Datetime 0) scenario_1 alerts_down_store))
         = [(i, TransactionDoc t)] \<and> risk_level t = Some ''high'')"
proof -
  have r: "create_transaction sample_fmt (Datetime 0) scenario_1 empty_store
     = (fst (create_transaction sample_fmt (Datetime 0) scenario_1 empty_store),
        snd (create_transaction sample_fmt (Datetime 0) scenario_1 empty_store))"
    by simp
  have r': "create_transaction sample_fmt (Datetime 0) scenario_1 alerts_down_store
     = (fst (create_transaction sample_fmt (Datetime 0) scenario_1 alerts_down_store),
        snd (create_transaction sample_fmt (Datetime 0) scenario_1 alerts_down_store))"
    by simp
  have av: "available empty_store ''transaction''" "available empty_store ''alert''"
    by (simp_all add: empty_store_def)
  have av': "available alerts_down_store ''transaction''"
    "\<not> available alerts_down_store ''alert''"
    by (simp_all add: alerts_down_store_def)
  show ?thesis
    using alert_iff_high_on_completion [OF r] alert_iff_high_on_completion [OF r']
      av av' scenario_levels(1)
    by blast
qed

theorem alert_iff_high_counterexample:
  "\<not> (collections (snd (create_transaction sample_fmt (Datetime 0) scenario_1
          alerts_down_store)) ''alert'' \<noteq> []
        \<longleftrightarrow> score_to_level (compute_risk_score scenario_1) = ''high'')"
  unfolding create_transaction_def Let_def scenario_scores
  by (simp add: create_document_def alerts_down_store_def score_to_level_def)

lemma present_tags:
  "map the (tags_of [a, b, c]) = present a @ present b @ present c"
  by (cases a; cases b; cases c) (simp_all add: tags_of_def present_def)

lemma tags_of_truthy: "None \<notin> set (tags_of ts) \<and> Some [] \<notin> set (tags_of ts)"
  by (auto simp: tags_of_def)

lemma present_nonempty: "[] \<notin> set (present v)"
  by (cases v) (simp_all add: present_def)

text \<open>
  C6. The tags of every alert that a create-call writes hold no empty string and come
  from no \<^verbatim>\<open>None\<close>; they are the category, the channel and the country of the
  transaction in this order, each left out when it is absent or empty, with nothing else
  removed.
\<close>

theorem alert_tags_in_order:
  assumes "create_transaction fmt now payload s = (res, s')"
    and "(i, AlertDoc a) \<in> set (written ''alert'' s s')"
  shows "[] \<notin> set (tags a)
    \<and> tags a = map the (tags_of [merchant_category payload, channel payload, country payload])
    \<and> None \<notin> set (tags_of [merchant_category payload, channel payload, country payload])
    \<and> tags a = present (merchant_category payload) @ present (channel payload)
                 @ present (country payload)"
proof -
  have t: "tags a = map the (tags_of [merchant_category payload, channel payload,
                                       country payload])"
    using written_alert_cases [OF assms(1)] assms(2) by auto
  then have p: "tags a = present (merchant_category payload) @ present (channel payload)
                 @ present (country payload)"
    by (simp only: present_tags)
  have "[] \<notin> set (tags a)"
    unfolding p using present_nonempty by simp
  with t p tags_of_truthy show ?thesis by blast
qed

theorem alert_tags_in_order_witness:
  "(1, AlertDoc alert_1) \<in> set (written ''alert'' empty_store
       (snd (create_transaction sample_fmt (Datetime 0) scenario_1 empty_store)))
   \<and> tags alert_1 = present (merchant_category scenario_1) @ present (channel scenario_1)
                 @ present (country scenario_1)
   \<and> tags alert_1 = [''gambling'', ''web'', ''RU'']"
proof -
  have m: "(1, AlertDoc alert_1) \<in> set (written ''alert'' empty_store
       (snd (create_transaction sample_fmt (Datetime 0) scenario_1 empty_store)))"
    by (simp add: scenario_1_written)
  have r: "create_transaction sample_fmt (Datetime 0) scenario_1 empty_store
     = (fst (create_transaction sample_fmt (Datetime 0) scenario_1 empty_store),
        snd (create_transaction sample_fmt (Datetime 0) scenario_1 empty_store))"
    by simp
  have p: "tags alert_1 = present (merchant_category scenario_1)
              @ present (channel scenario_1) @ present (country scenario_1)"
    using alert_tags_in_order [OF r m] by blast
  have e: "present (merchant_category scenario_1) @ present (channel scenario_1)
              @ present (country scenario_1) = [''gambling'', ''web'', ''RU'']"
    by (simp add: scenario_1_def present_def)
  show ?thesis
    using m p e by simp
qed

text \<open>
  C9. Every alert that a create-call writes has the level high and a score of at least
  70; the same call has written the transaction that the alert refers to, and that
  transaction carries the same score, the same level and the same user.
\<close>

theorem alert_agrees_with_transaction:
  assumes "create_transaction fmt now payload s = (res, s')"
    and "(i, AlertDoc a) \<in> set (written ''alert'' s s')"
  shows "alert_risk_level a = ''high'' \<and> alert_risk_score a \<ge> 70
    \<and> (\<exists>t. written ''transaction'' s s' = [(transaction_ref a, TransactionDoc t)]
          \<and> risk_score t = Some (alert_risk_score a)
          \<and> risk_level t = Some (alert_risk_level a)
          \<and> user_id t = alert_user_id a)"
proof -
  from written_alert_cases [OF assms(1)] assms(2)
  have h: "score_to_level (compute_risk_score payload) = ''high''"
    and f: "transaction_ref a = next_id s" "alert_user_id a = user_id payload"
      "alert_risk_score a = compute_risk_score payload" "alert_risk_level a = ''high''"
    and r: "\<exists>r. res = Inr r"
    by auto
  from written_transaction_cases [OF assms(1)] r
  obtain t where t: "written ''transaction'' s s' = [(next_id s, TransactionDoc t)]"
    "t = payload\<lparr>timestamp := (if timestamp payload = None then Some now else timestamp payload),
                     risk_score := Some (compute_risk_score payload),
                     risk_level := Some (score_to_level (compute_risk_score payload))\<rparr>"
    by auto
  have "alert_risk_score a \<ge> 70"
    using h f(3) high_iff by simp
  moreover have "risk_score t = Some (alert_risk_score a)" "risk_level t = Some (alert_risk_level a)"
    "user_id t = alert_user_id a"
    using t(2) f h by simp_all
  ultimately show ?thesis
    using t(1) f by simp
qed

theorem alert_agrees_with_transaction_witness:
  "(1, AlertDoc alert_1) \<in> set (written ''alert'' empty_store
       (snd (create_transaction sample_fmt (Datetime 0) scenario_1 empty_store)))
   \<and> alert_risk_level alert_1 = ''high'' \<and> alert_risk_score alert_1 \<ge> 70
   \<and> written ''transaction'' empty_store
       (snd (create_transaction sample_fmt (Datetime 0) scenario_1 empty_store))
       = [(transaction_ref alert_1, TransactionDoc stored_1)]
   \<and> risk_score stored_1 = Some (alert_risk_score alert_1)
   \<and> risk_level stored_1 = Some (alert_risk_level alert_1)
   \<and> user_id stored_1 = alert_user_id alert_1"
proof -
  have m: "(1, AlertDoc alert_1) \<in> set (written ''alert'' empty_store
       (snd (create_transaction sample_fmt (Datetime 0) scenario_1 empty_store)))"
    by (simp add: scenario_1_written)
  have r: "create_transaction sample_fmt (Datetime 0) scenario_1 empty_store
     = (fst (create_transaction sample_fmt (Datetime 0) scenario_1 empty_store),
        snd (create_transaction sample_fmt (Datetime 0) scenario_1 empty_store))"
    by simp
  show ?thesis
    using m alert_agrees_with_transaction [OF r m]
    by (simp add: scenario_1_written)
qed

section \<open>Properties of validation\<close>







lemma optional_score_given:
  "optional None f = Inr x \<Longrightarrow> (\<exists>v. x = Some v \<and> P v) \<longleftrightarrow> (\<exists>v. f = Given v \<and> P v)"
  by (cases f) auto





lemma validate_body_1: "validate_transaction body_1 = Inr scenario_1"
  by (simp add: validate_transaction_def body_1_def scenario_1_def)




section \<open>Derived fields supplied by the caller\<close>

lemma validate_ignores_level:
  assumes "validate_transaction b = Inr p"
    and "validate_transaction (b\<lparr>body_risk_score := rs, body_risk_level := rl\<rparr>) = Inr p'"
  shows "\<exists>x y. p' = p\<lparr>risk_score := x, risk_level := y\<rparr>"
  using assms unfolding validate_transaction_def
  by (auto split: sum.splits if_splits)

lemma accumulated_score_fields:
  assumes "amount p = amount q" "country p = country q" "channel p = channel q"
    "merchant_category p = merchant_category q" "ip_address p = ip_address q"
    "device_id p = device_id q"
  shows "accumulated_score p = accumulated_score q"
  unfolding accumulated_score_def by (simp only: assms)

lemma score_ignores_derived:
  "compute_risk_score (p\<lparr>risk_score := x, risk_level := y\<rparr>) = compute_risk_score p"
proof -
  have "accumulated_score (p\<lparr>risk_score := x, risk_level := y\<rparr>) = accumulated_score p"
    by (rule accumulated_score_fields) simp_all
  then show ?thesis
    by (simp only: compute_risk_score_def)
qed

lemma create_ignores_derived:
  "create_transaction fmt now (p\<lparr>risk_score := x, risk_level := y\<rparr>) s
     = create_transaction fmt now p s"
  unfolding create_transaction_def Let_def score_ignores_derived
  by (cases "timestamp p")
    (simp_all split del: if_split cong: if_cong prod.case_cong sum.case_cong)

text \<open>
  C5, as amended. Two create requests that validation accepts and that differ only in
  the risk_score and risk_level that the caller supplied have the same outcome: the same
  response and the same store. The transaction that an accepted request stores carries
  the computed score and level.
\<close>

theorem supplied_score_and_level_overwritten:
  assumes "validate_transaction b = Inr p"
    and "validate_transaction (b\<lparr>body_risk_score := rs, body_risk_level := rl\<rparr>) = Inr p'"
  shows "post_api_transactions fmt now (b\<lparr>body_risk_score := rs, body_risk_level := rl\<rparr>) s
           = post_api_transactions fmt now b s
    \<and> (\<forall>i t. (i, TransactionDoc t)
                \<in> set (written ''transaction'' s (snd (post_api_transactions fmt now b s)))
          \<longrightarrow> risk_score t = Some (compute_risk_score p)
              \<and> risk_level t = Some (score_to_level (compute_risk_score p)))"
proof -
  obtain x y where "p' = p\<lparr>risk_score := x, risk_level := y\<rparr>"
    using validate_ignores_level [OF assms] by blast
  then have same: "post_api_transactions fmt now
      (b\<lparr>body_risk_score := rs, body_risk_level := rl\<rparr>) s = post_api_transactions fmt now b s"
    using assms by (simp add: post_api_transactions_def create_ignores_derived)
  have run: "post_api_transactions fmt now b s = create_transaction fmt now p s"
    using assms(1) by (simp add: post_api_transactions_def)
  have r: "create_transaction fmt now p s
     = (fst (create_transaction fmt now p s), snd (create_transaction fmt now p s))"
    by simp
  have "risk_score t = Some (compute_risk_score p)
      \<and> risk_level t = Some (score_to_level (compute_risk_score p))"
    if "(i, TransactionDoc t)
          \<in> set (written ''transaction'' s (snd (post_api_transactions fmt now b s)))"
    for i t
    using that written_transaction_cases [OF r]
    unfolding run by auto
  with same show ?thesis by blast
qed

lemma validate_body_rescored:
  "validate_transaction (body_1\<lparr>body_risk_score := Given 5, body_risk_level := Given ''low''\<rparr>)
     = Inr (scenario_1\<lparr>risk_score := Some 5, risk_level := Some ''low''\<rparr>)"
  by (simp add: validate_transaction_def body_1_def scenario_1_def)

theorem supplied_score_and_level_overwritten_witness:
  "post_api_transactions sample_fmt (Datetime 0)
      (body_1\<lparr>body_risk_score := Given 5, body_risk_level := Given ''low''\<rparr>) empty_store
     = post_api_transactions sample_fmt (Datetime 0) body_1 empty_store
   \<and> (0, TransactionDoc stored_1) \<in> set (written ''transaction'' empty_store
         (snd (post_api_transactions sample_fmt (Datetime 0) body_1 empty_store)))
   \<and> risk_score stored_1 = Some (compute_risk_score scenario_1)
   \<and> risk_level stored_1 = Some (score_to_level (compute_risk_score scenario_1))"
proof -
  have m: "(0, TransactionDoc stored_1) \<in> set (written ''transaction'' empty_store
         (snd (post_api_transactions sample_fmt (Datetime 0) body_1 empty_store)))"
    by (simp add: post_api_transactions_def validate_body_1 scenario_1_written)
  show ?thesis
    using m supplied_score_and_level_overwritten [OF validate_body_1 validate_body_rescored,
        of sample_fmt "Datetime 0" empty_store]
    by blast
qed

theorem derived_fields_counterexample:
  "body_flagged = body_1\<lparr>body_is_fraud := Given True\<rparr>
   \<and> map snd (collections (snd (post_api_transactions sample_fmt (Datetime 0) body_flagged
         empty_store)) ''transaction'')
     \<noteq> map snd (collections (snd (post_api_transactions sample_fmt (Datetime 0) body_1
         empty_store)) ''transaction'')
   \<and> body_score_150 = body_1\<lparr>body_risk_score := Given 150\<rparr>
   \<and> fst (post_api_transactions sample_fmt (Datetime 0) body_score_150 empty_store)
       = Inl ValidationError
   \<and> fst (post_api_transactions sample_fmt (Datetime 0) body_1 empty_store)
       = Inr \<lparr>response_id = 0, response_risk_score = 90, response_risk_level = ''high''\<rparr>"
proof -
  have v: "validate_transaction body_flagged = Inr (scenario_1\<lparr>is_fraud := Some True\<rparr>)"
    by (simp add: validate_transaction_def body_flagged_def body_1_def scenario_1_def)
  have s: "compute_risk_score (scenario_1\<lparr>is_fraud := Some True\<rparr>) = 90"
    by (simp add: scenario_1_def score_eval)
  have ts: "timestamp scenario_1 = None"
    by (simp add: scenario_1_def)
  have a: "collections (snd (post_api_transactions sample_fmt (Datetime 0) body_flagged
         empty_store)) ''transaction''
      = [(0, TransactionDoc (stored_1\<lparr>is_fraud := Some True\<rparr>))]"
    unfolding post_api_transactions_def v
    by (simp add: create_transaction_def Let_def s ts create_document_def empty_store_def
        stored_1_def score_to_level_def)
  have b: "collections (snd (post_api_transactions sample_fmt (Datetime 0) body_1
         empty_store)) ''transaction'' = [(0, TransactionDoc stored_1)]"
    by (simp add: post_api_transactions_def validate_body_1 scenario_1_run)
  have c: "fst (post_api_transactions sample_fmt (Datetime 0) body_score_150 empty_store)
       = Inl ValidationError"
    by (simp add: post_api_transactions_def validate_transaction_def body_score_150_def
        body_1_def)
  have d: "fst (post_api_transactions sample_fmt (Datetime 0) body_1 empty_store)
       = Inr \<lparr>response_id = 0, response_risk_score = 90, response_risk_level = ''high''\<rparr>"
    by (simp add: post_api_transactions_def validate_body_1 scenario_1_run)
  show ?thesis
    unfolding a b c d
    by (simp add: body_flagged_def body_score_150_def stored_1_def scenario_1_def)
qed

section \<open>Properties of the list calls\<close>

lemma clamp_limit_cases:
  "clamp_limit None = 50" "clamp_limit (Some 0) = 50"
  "n < 0 \<Longrightarrow> clamp_limit (Some n) = 1"
  "n > 200 \<Longrightarrow> clamp_limit (Some n) = 200"
  "1 \<le> n \<Longrightarrow> n \<le> 200 \<Longrightarrow> clamp_limit (Some n) = n"
  by (simp_all add: clamp_limit_def)

lemma clamp_limit_positive: "1 \<le> clamp_limit limit"
  by (simp add: clamp_limit_def)

lemma get_documents_length:
  "get_documents c n s = Inr items \<Longrightarrow> 0 \<le> n \<Longrightarrow> int (length items) \<le> n"
  by (auto simp: get_documents_def split: if_splits)

text \<open>
  C4, as amended. A list call returns no more items than the effective limit, and the
  effective limit is 50 when the requested limit is absent or 0, 1 when it is negative,
  200 when it is above 200, and the requested limit otherwise.
\<close>

theorem list_respects_clamped_limit:
  "(list_transactions limit s = Inr items \<longrightarrow> int (length items) \<le> clamp_limit limit)
   \<and> (list_alerts limit s = Inr items \<longrightarrow> int (length items) \<le> clamp_limit limit)
   \<and> clamp_limit None = 50
   \<and> clamp_limit (Some 0) = 50
   \<and> (n < 0 \<longrightarrow> clamp_limit (Some n) = 1)
   \<and> (n > 200 \<longrightarrow> clamp_limit (Some n) = 200)
   \<and> (1 \<le> n \<and> n \<le> 200 \<longrightarrow> clamp_limit (Some n) = n)"
proof -
  have p: "0 \<le> clamp_limit limit"
    using clamp_limit_positive [of limit] by simp
  have t: "list_transactions limit s = Inr items \<longrightarrow> int (length items) \<le> clamp_limit limit"
    using get_documents_length [of "''transaction''" "clamp_limit limit" s items] p
    by (auto simp: list_transactions_def Let_def split: sum.splits)
  have a: "list_alerts limit s = Inr items \<longrightarrow> int (length items) \<le> clamp_limit limit"
    using get_documents_length [of "''alert''" "clamp_limit limit" s items] p
    by (auto simp: list_alerts_def Let_def split: sum.splits)
  show ?thesis
    using t a clamp_limit_cases by blast
qed

lemma list_two_of_three:
  "list_transactions (Some 2) three_store
     = Inr [(0, TransactionDoc scenario_2), (1, TransactionDoc scenario_3)]"
  by (simp add: list_transactions_def clamp_limit_def get_documents_def three_store_def)

theorem list_respects_clamped_limit_witness:
  "list_transactions (Some 2) three_store
     = Inr [(0, TransactionDoc scenario_2), (1, TransactionDoc scenario_3)]
   \<and> int (length [(0::nat, TransactionDoc scenario_2), (1, TransactionDoc scenario_3)])
       \<le> clamp_limit (Some 2)
   \<and> (- 5 :: int) < 0 \<and> clamp_limit (Some (- 5)) = 1
   \<and> (500 :: int) > 200 \<and> clamp_limit (Some 500) = 200
   \<and> (1 :: int) \<le> 2 \<and> (2 :: int) \<le> 200 \<and> clamp_limit (Some 2) = 2"
  using list_two_of_three
    list_respects_clamped_limit [of "Some 2" three_store
      "[(0, TransactionDoc scenario_2), (1, TransactionDoc scenario_3)]" 2]
    list_respects_clamped_limit [of "Some 2" three_store
      "[(0, TransactionDoc scenario_2), (1, TransactionDoc scenario_3)]" "- 5"]
    list_respects_clamped_limit [of "Some 2" three_store
      "[(0, TransactionDoc scenario_2), (1, TransactionDoc scenario_3)]" 500]
  by simp

theorem list_limit_counterexample:
  "(- 5 :: int) \<le> 0 \<and> clamp_limit (Some (- 5)) \<noteq> 50
   \<and> list_transactions (Some (- 5)) three_store = Inr [(0, TransactionDoc scenario_2)]"
  by (simp add: list_transactions_def clamp_limit_def get_documents_def three_store_def)

end
